theory Spec2Isabelle
  imports Complex_Main "HOL-Library.Word"
begin

section \<open>Conventions of the embedding\<close>

text \<open>
  The development embeds \<^verbatim>\<open>RayCastSemanticLidar.cpp\<close> and \<^verbatim>\<open>Vector4DuInt.h\<close>.

  \<^item> A C++ \<^verbatim>\<open>float\<close> is modelled as a \<^typ>\<open>real\<close>: arithmetic is exact, rounding, infinities
    and NaN are outside the model. Conversions from \<^verbatim>\<open>float\<close> to an unsigned integer
    truncate toward zero and are undefined behaviour in C++ when the truncated value
    does not fit; the model returns the error \<open>UndefinedConversion\<close> there.
  \<^item> \<^verbatim>\<open>uint8_t\<close> is \<^typ>\<open>8 word\<close>, \<^verbatim>\<open>uint32_t\<close> and \<^verbatim>\<open>int32\<close> are \<^typ>\<open>32 word\<close>. Container sizes
    and loop counters, on which the source performs no wrapping arithmetic, are \<^typ>\<open>nat\<close>.
  \<^item> \<^verbatim>\<open>UE_LOG\<close> with verbosity \<^verbatim>\<open>Warning\<close> has no effect on the computed data and is left out.
    With verbosity \<^verbatim>\<open>Fatal\<close> the engine stops the process: the model returns \<open>FatalLog\<close>
    and nothing after the log statement is executed.
  \<^item> A failed \<^verbatim>\<open>check\<close> is the error \<open>CheckFailed\<close>; dereferencing a null pointer is
    \<open>NullDereference\<close>; an access outside a container is \<open>IndexOutOfRange\<close>.
\<close>

datatype error =
    FatalLog
  | CheckFailed
  | NullDereference
  | UndefinedConversion
  | IndexOutOfRange

subsection \<open>Numeric conversions\<close>

definition trunc_toward_zero :: "real \<Rightarrow> int" where
  "trunc_toward_zero v = (if 0 \<le> v then \<lfloor>v\<rfloor> else \<lceil>v\<rceil>)"

text \<open>\<^verbatim>\<open>static_cast<uint8_t>(f)\<close> for a float \<open>f\<close>.\<close>

definition float_to_uint8 :: "real \<Rightarrow> error + 8 word" where
  "float_to_uint8 v =
     (let t = trunc_toward_zero v
      in if 0 \<le> t \<and> t \<le> 255 then Inr (word_of_int t) else Inl UndefinedConversion)"


text \<open>\<^verbatim>\<open>FMath::RoundHalfFromZero\<close> of the engine: ceiling of \<open>v - 0.5\<close> below zero,
  floor of \<open>v + 0.5\<close> otherwise.\<close>

definition RoundHalfFromZero :: "real \<Rightarrow> real" where
  "RoundHalfFromZero v =
     (if v < 0 then of_int \<lceil>v - 1 / 2\<rceil> else of_int \<lfloor>v + 1 / 2\<rfloor>)"

text \<open>\<^verbatim>\<open>std::fmod\<close>: the remainder of the division truncated toward zero, so the result
  has the sign of the dividend. The modulus is non-zero wherever the theorems use it
  (in C++ a zero modulus gives NaN).\<close>

definition fmod :: "real \<Rightarrow> real \<Rightarrow> real" where
  "fmod v m = v - m * of_int (trunc_toward_zero (v / m))"

subsection \<open>Value types\<close>

text \<open>\<^verbatim>\<open>carla::geom::Vector4DuInt\<close>: the members \<^verbatim>\<open>x, y, z, w\<close> of the class are the
  selectors \<open>vec_x\<close> .. \<open>vec_w\<close>; the constructor takes them in this order.\<close>

datatype Vector4DuInt =
  Vector4DuInt (vec_x: "8 word") (vec_y: "8 word") (vec_z: "8 word") (vec_w: "8 word")

text \<open>The engine's \<^verbatim>\<open>FColor(R, G, B, A)\<close> and \<^verbatim>\<open>FVector(X, Y, Z)\<close>.\<close>

datatype FColor =
  FColor (col_R: "8 word") (col_G: "8 word") (col_B: "8 word") (col_A: "8 word")

datatype FVector = FVector (vec_X: real) (vec_Y: real) (vec_Z: real)

definition FVector_minus :: "FVector \<Rightarrow> FVector \<Rightarrow> FVector" where
  "FVector_minus a b =
     FVector (vec_X a - vec_X b) (vec_Y a - vec_Y b) (vec_Z a - vec_Z b)"

definition FVector_neg :: "FVector \<Rightarrow> FVector" where
  "FVector_neg a = FVector (- vec_X a) (- vec_Y a) (- vec_Z a)"

definition DotProduct :: "FVector \<Rightarrow> FVector \<Rightarrow> real" where
  "DotProduct a b = vec_X a * vec_X b + vec_Y a * vec_Y b + vec_Z a * vec_Z b"

text \<open>\<^verbatim>\<open>FVector::GetSafeNormal\<close> of the engine, with its default tolerance \<open>1e-8\<close>.\<close>

definition GetSafeNormal :: "FVector \<Rightarrow> FVector" where
  "GetSafeNormal a =
     (let SquareSum = DotProduct a a
      in if SquareSum = 1 then a
         else if SquareSum < 1 / 100000000 then FVector 0 0 0
         else FVector (vec_X a / sqrt SquareSum) (vec_Y a / sqrt SquareSum)
                (vec_Z a / sqrt SquareSum))"

text \<open>The transform of the sensor; the classifier reads its location only.\<close>

record FTransform =
  Location :: FVector

subsection \<open>Scene objects reached from a hit\<close>

text \<open>A 2D texture: the size of mip 0 and its bulk data (\<open>None\<close> when \<^verbatim>\<open>Lock\<close> returns
  a null pointer).\<close>

record UTexture2D =
  SizeX :: nat
  SizeY :: nat
  BulkData :: "FColor list option"

text \<open>A material instance with its three parameter arrays. A texture parameter holds
  the result of \<^verbatim>\<open>Cast<UTexture2D>\<close> on its value, a scalar parameter its name and value,
  a vector parameter its name and four components. A parameter name is the engine's
  \<^verbatim>\<open>FName\<close>; the model takes a string for it and the equality of strings for the
  comparison of names.\<close>

record UMaterialInstance =
  TextureParameterValues :: "UTexture2D option list"
  ScalarParameterValues :: "(string \<times> real) list"
  VectorParameterValues :: "(string \<times> real \<times> real \<times> real \<times> real) list"

text \<open>A material interface is a material instance (the \<^verbatim>\<open>Cast<UMaterialInstance>\<close>
  succeeds) or any other material.\<close>

datatype UMaterialInterface =
    OtherMaterial
  | MaterialInstance UMaterialInstance

text \<open>The struck component: its stencil value (an \<^verbatim>\<open>int32\<close>), whether
  \<^verbatim>\<open>Cast<UStaticMeshComponent>\<close> succeeds on it, and \<^verbatim>\<open>GetMaterialFromCollisionFaceIndex\<close>
  as a function of the face index (\<open>None\<close> for a null material).\<close>

record UPrimitiveComponent =
  CustomDepthStencilValue :: "32 word"
  IsStaticMeshComponent :: bool
  GetMaterialFromCollisionFaceIndex :: "int \<Rightarrow> UMaterialInterface option"

text \<open>\<^verbatim>\<open>FHitResult\<close>. \<open>Component\<close> is the weak pointer (\<open>None\<close> when null);
  \<open>FindCollisionUV\<close> is the outcome of \<^verbatim>\<open>UGameplayStatics::FindCollisionUV(HitInfo, 0, uv)\<close>
  (\<open>None\<close> when it returns false).\<close>

record FHitResult =
  bBlockingHit :: bool
  TraceEnd :: FVector
  ImpactPoint :: FVector
  ImpactNormal :: FVector
  Distance :: real
  FaceIndex :: int
  Component :: "UPrimitiveComponent option"
  FindCollisionUV :: "(real \<times> real) option"

text \<open>\<^verbatim>\<open>FSemanticDetection\<close>, the record written for each ray.\<close>

record FSemanticDetection =
  point :: FVector
  cos_inc_angle :: real
  object_idx :: "32 word"
  object_tag :: "32 word"
  base_color :: Vector4DuInt
  ORME :: Vector4DuInt

section \<open>The hit classifier\<close>

text \<open>\<^verbatim>\<open>ComputeRawDetectionFromMaterialInstance\<close>. The local \<open>textureColor\<close> is
  initialised to \<open>FColor(0, 0, 0, 0)\<close> and never assigned: every call of
  \<^verbatim>\<open>GetColorFromTexture\<close> is commented out in the source, and the function receives no UV
  coordinates. The pointer \<open>texture\<close> is assigned and never read, so it is not part of
  the result. The \<^verbatim>\<open>switch\<close> statements on the three \<^verbatim>\<open>Num()\<close> values are the case
  distinctions below.\<close>

definition ComputeRawDetectionFromMaterialInstance ::
    "FSemanticDetection \<Rightarrow> UMaterialInstance \<Rightarrow> error + FSemanticDetection" where
  "ComputeRawDetectionFromMaterialInstance Detection materialInstance =
     (let textureColor = FColor 0 0 0 0;
          n = length (TextureParameterValues materialInstance)
      in if n = 0 then
           (case ScalarParameterValues materialInstance of
              [] \<Rightarrow>
                (case VectorParameterValues materialInstance of
                   [] \<Rightarrow>
                     Inr (Detection\<lparr>base_color := Vector4DuInt 0 0 0 0,
                                    ORME := Vector4DuInt 0 0 0 0,
                                    object_idx := 6\<rparr>)
                 | _ # _ \<Rightarrow> Inl FatalLog)
            | (Name, ParameterValue) # _ \<Rightarrow>
                if Name = ''Transparency'' then
                  (case float_to_uint8 (ParameterValue * 256) of
                     Inl e \<Rightarrow> Inl e
                   | Inr alpha \<Rightarrow>
                       Inr (Detection\<lparr>
                         ORME := Vector4DuInt (col_R textureColor) (col_G textureColor)
                                   (col_B textureColor) (col_A textureColor),
                         base_color := Vector4DuInt (col_R textureColor) (col_G textureColor)
                                   (col_B textureColor) (word_of_int (255 - uint alpha))\<rparr>))
                else
                  Inr (Detection\<lparr>base_color := Vector4DuInt 0 0 0 0,
                                 ORME := Vector4DuInt 0 0 0 0,
                                 object_idx := 8\<rparr>))
         else if n = 1 \<or> n = 2 then
           Inr (Detection\<lparr>
             ORME := Vector4DuInt (col_R textureColor) (col_G textureColor)
                       (col_B textureColor) (col_A textureColor),
             base_color := Vector4DuInt (col_R textureColor) (col_G textureColor)
                       (col_B textureColor) (col_A textureColor)\<rparr>)
         else if n = 3 \<or> n = 4 \<or> n = 13 then
           Inr (Detection\<lparr>
             base_color := Vector4DuInt (col_R textureColor) (col_G textureColor)
                       (col_B textureColor) (col_A textureColor),
             ORME := Vector4DuInt (col_R textureColor) (col_G textureColor)
                       (col_B textureColor) (col_A textureColor)\<rparr>)
         else Inl FatalLog)"

text \<open>\<^verbatim>\<open>ComputeRawDetectionFromComponent\<close>: the four early returns with the codes 2 to 5,
  then the material instance.\<close>

definition ComputeRawDetectionFromComponent ::
    "FHitResult \<Rightarrow> FSemanticDetection \<Rightarrow> UPrimitiveComponent \<Rightarrow> error + FSemanticDetection" where
  "ComputeRawDetectionFromComponent HitInfo Detection Comp =
     (if FaceIndex HitInfo = - 1 then
        Inr (Detection\<lparr>base_color := Vector4DuInt 0 0 0 0,
                       ORME := Vector4DuInt 0 0 0 0,
                       object_idx := 2\<rparr>)
      else
        (case FindCollisionUV HitInfo of
           None \<Rightarrow>
             Inr (Detection\<lparr>base_color := Vector4DuInt 0 0 0 0,
                            ORME := Vector4DuInt 0 0 0 0,
                            object_idx := 3\<rparr>)
         | Some uv_coords \<Rightarrow>
             (case GetMaterialFromCollisionFaceIndex Comp (FaceIndex HitInfo) of
                None \<Rightarrow>
                  Inr (Detection\<lparr>base_color := Vector4DuInt 0 0 0 0,
                                 ORME := Vector4DuInt 0 0 0 0,
                                 object_idx := 4\<rparr>)
              | Some OtherMaterial \<Rightarrow>
                  Inr (Detection\<lparr>base_color := Vector4DuInt 0 0 0 0,
                                 ORME := Vector4DuInt 0 0 0 0,
                                 object_idx := 5\<rparr>)
              | Some (MaterialInstance materialInstance) \<Rightarrow>
                  ComputeRawDetectionFromMaterialInstance Detection materialInstance)))"

text \<open>\<^verbatim>\<open>ComputeRawDetection\<close>. On a blocking hit the stencil value is read through
  \<^verbatim>\<open>HitInfo.Component->\<close> before the null test of the cast component, so a null
  component pointer is a null dereference. \<^verbatim>\<open>static_cast<uint32_t>\<close> of the \<^verbatim>\<open>int32\<close>
  stencil value keeps its 32 bits.\<close>

definition ComputeRawDetection ::
    "FHitResult \<Rightarrow> FTransform \<Rightarrow> FSemanticDetection \<Rightarrow> error + FSemanticDetection" where
  "ComputeRawDetection HitInfo SensorTransf Detection =
     (let D1 = Detection\<lparr>point := FVector (vec_X (TraceEnd HitInfo))
                 (vec_Y (TraceEnd HitInfo)) (vec_Z (TraceEnd HitInfo))\<rparr>
      in if bBlockingHit HitInfo then
           (let HitPoint = ImpactPoint HitInfo;
                VecInc = FVector_neg
                  (GetSafeNormal (FVector_minus HitPoint (Location SensorTransf)));
                D2 = D1\<lparr>cos_inc_angle := DotProduct VecInc (ImpactNormal HitInfo),
                        object_idx := 0\<rparr>
            in case Component HitInfo of
                 None \<Rightarrow> Inl NullDereference
               | Some c \<Rightarrow>
                   (let D3 = D2\<lparr>object_tag := CustomDepthStencilValue c\<rparr>
                    in if IsStaticMeshComponent c then
                         ComputeRawDetectionFromComponent HitInfo D3 c
                       else
                         Inr (D3\<lparr>base_color := Vector4DuInt 1 0 0 0,
                                 ORME := Vector4DuInt 0 0 0 0,
                                 object_idx := 1\<rparr>)))
         else
           Inr (D1\<lparr>cos_inc_angle := 2,
                   object_idx := 0,
                   object_tag := 0,
                   base_color := Vector4DuInt 0 0 0 0,
                   ORME := Vector4DuInt 0 0 0 0\<rparr>))"

text \<open>\<^verbatim>\<open>GetColorFromTexture\<close>, the texture sampler. It is defined in the source and called
  nowhere. The pixel coordinates are \<^verbatim>\<open>uint8\<close> values; \<^verbatim>\<open>roundf\<close> rounds halves away from
  zero, as \<open>RoundHalfFromZero\<close> does; the saved and restored texture settings do not change
  the colour read.\<close>

definition GetColorFromTexture :: "UTexture2D \<Rightarrow> real \<times> real \<Rightarrow> error + FColor" where
  "GetColorFromTexture texture uvCoordinates =
     (case BulkData texture of
        None \<Rightarrow> Inl FatalLog
      | Some FormatedImageData \<Rightarrow>
          (let width = SizeX texture; height = SizeY texture
           in case float_to_uint8 (RoundHalfFromZero (fst uvCoordinates * real width)) of
                Inl e \<Rightarrow> Inl e
              | Inr PixelX \<Rightarrow>
                  (case float_to_uint8 (RoundHalfFromZero (snd uvCoordinates * real height)) of
                     Inl e \<Rightarrow> Inl e
                   | Inr PixelY \<Rightarrow>
                       if unat PixelX \<ge> width \<or> unat PixelY \<ge> height then Inl FatalLog
                       else if unat PixelY * width + unat PixelX < length FormatedImageData
                       then Inr (FormatedImageData ! (unat PixelY * width + unat PixelX))
                       else Inl IndexOutOfRange)))"

section \<open>The sensor\<close>

text \<open>Modelled from the spec: the declaration of \<^verbatim>\<open>FLidarDescription\<close> is not among the
  sources; the fields are the SensorConfig of the specification under the names the
  source reads them by (\<^verbatim>\<open>Channels\<close> and \<^verbatim>\<open>PointsPerSecond\<close> are \<^verbatim>\<open>uint32\<close>, the others
  \<^verbatim>\<open>float\<close>).\<close>

record FLidarDescription =
  Channels :: nat
  Range :: real
  PointsPerSecond :: nat
  RotationFrequency :: real
  UpperFovLimit :: real
  LowerFovLimit :: real
  HorizontalFov :: real



text \<open>Modelled from the spec: the class \<^verbatim>\<open>FSemanticLidarData\<close> is not among the sources.
  Following section 4.4 of the specification it holds the horizontal angle, the header
  of per-channel detection counts and the detections of the sweep in the order written;
  \<open>ResetMemory\<close> empties the storage for the sweep to come, \<open>WritePointSync\<close> appends a
  detection, \<open>WriteChannelCount\<close> writes the per-channel counts as the header.\<close>

record FSemanticLidarData =
  horizontal_angle :: real
  Header :: "nat list"
  SerPoints :: "FSemanticDetection list"

text \<open>Modelled from the spec: the constructor of \<^verbatim>\<open>FSemanticLidarData\<close> for a channel
  count; the angle and every count start at zero, the sweep is empty.\<close>

definition FSemanticLidarData_new :: "nat \<Rightarrow> FSemanticLidarData" where
  "FSemanticLidarData_new ChannelCount =
     \<lparr>horizontal_angle = 0, Header = replicate ChannelCount 0, SerPoints = []\<rparr>"

text \<open>Modelled from the spec: \<^verbatim>\<open>FSemanticLidarData::GetHorizontalAngle\<close>, the stored
  angle.\<close>

definition GetHorizontalAngle :: "FSemanticLidarData \<Rightarrow> real" where
  "GetHorizontalAngle d = horizontal_angle d"





text \<open>Modelled from the spec: the declaration of \<^verbatim>\<open>FSemanticDetection\<close> is not among the
  sources; a default-constructed detection has every member zero (the quads by the
  member initialisers of \<^verbatim>\<open>Vector4DuInt.h\<close>).\<close>

definition FSemanticDetection_default :: FSemanticDetection where
  "FSemanticDetection_default =
     \<lparr>point = FVector 0 0 0, cos_inc_angle = 0, object_idx = 0, object_tag = 0,
      base_color = Vector4DuInt 0 0 0 0, ORME = Vector4DuInt 0 0 0 0\<rparr>"

text \<open>The members of \<^verbatim>\<open>ARayCastSemanticLidar\<close> the pipeline reads and writes, and the
  transform of the actor.\<close>

record ARayCastSemanticLidar =
  Description :: FLidarDescription
  LaserAngles :: "real list"
  PointsPerChannel :: "nat list"
  RecordedHits :: "FHitResult list list"
  RayPreprocessCondition :: "bool list list"
  SemanticLidarData :: FSemanticLidarData
  ActorTransform :: FTransform

text \<open>\<^verbatim>\<open>std::vector::resize\<close> with the value given to new elements.\<close>

definition resize_vec :: "nat \<Rightarrow> 'a \<Rightarrow> 'a list \<Rightarrow> 'a list" where
  "resize_vec n d xs = take n xs @ replicate (n - length xs) d"

subsection \<open>Vertical angles\<close>

text \<open>The loop of \<^verbatim>\<open>CreateLasers\<close>, from counter \<open>i\<close>, appending to the array.\<close>

function CreateLasers_loop :: "nat \<Rightarrow> nat \<Rightarrow> real \<Rightarrow> real \<Rightarrow> real list \<Rightarrow> real list" where
  "CreateLasers_loop i NumberOfLasers Upper DeltaAngle Angles =
     (if i < NumberOfLasers
      then CreateLasers_loop (Suc i) NumberOfLasers Upper DeltaAngle
             (Angles @ [Upper - real i * DeltaAngle])
      else Angles)"
  by pat_completeness auto
termination
  by (relation "measure (\<lambda>(i, NumberOfLasers, Upper, DeltaAngle, Angles). NumberOfLasers - i)") auto

declare CreateLasers_loop.simps [simp del]

definition CreateLasers :: "ARayCastSemanticLidar \<Rightarrow> error + ARayCastSemanticLidar" where
  "CreateLasers s =
     (let NumberOfLasers = Channels (Description s)
      in if \<not> NumberOfLasers > 0 then Inl CheckFailed
         else
           (let DeltaAngle =
                  (if NumberOfLasers = 1 then 0
                   else (UpperFovLimit (Description s) - LowerFovLimit (Description s))
                        / real (NumberOfLasers - 1))
            in Inr (s\<lparr>LaserAngles :=
                 CreateLasers_loop 0 NumberOfLasers (UpperFovLimit (Description s))
                   DeltaAngle []\<rparr>)))"

text \<open>\<^verbatim>\<open>Set(const FLidarDescription &)\<close>.\<close>

definition Set_Description ::
    "FLidarDescription \<Rightarrow> ARayCastSemanticLidar \<Rightarrow> error + ARayCastSemanticLidar" where
  "Set_Description LidarDescription s =
     (case CreateLasers (s\<lparr>Description := LidarDescription,
                           SemanticLidarData :=
                             FSemanticLidarData_new (Channels LidarDescription)\<rparr>) of
        Inl e \<Rightarrow> Inl e
      | Inr s' \<Rightarrow>
          Inr (s'\<lparr>PointsPerChannel :=
                 resize_vec (Channels LidarDescription) 0 (PointsPerChannel s')\<rparr>))"

subsection \<open>Ray casting\<close>

text \<open>The scene is a function \<open>LineTrace\<close> from the vertical and horizontal angle of a ray
  to the \<^verbatim>\<open>FHitResult\<close> that \<^verbatim>\<open>ParallelLineTraceSingleByChannel\<close> fills for the ray of that
  rotation, cast from the actor over \<^verbatim>\<open>Description.Range\<close>. \<^verbatim>\<open>ShootLaser\<close> stores the angles
  and the distance in \<open>TraceEnd\<close>; its boolean result is always true and is ignored by
  the caller.\<close>

definition ShootLaser :: "(real \<Rightarrow> real \<Rightarrow> FHitResult) \<Rightarrow> real \<Rightarrow> real \<Rightarrow> FHitResult" where
  "ShootLaser LineTrace VerticalAngle HorizontalAngle =
     (let HitResult = LineTrace VerticalAngle HorizontalAngle
      in if bBlockingHit HitResult
         then HitResult\<lparr>TraceEnd := FVector VerticalAngle HorizontalAngle (Distance HitResult)\<rparr>
         else HitResult\<lparr>TraceEnd := FVector VerticalAngle HorizontalAngle 0\<rparr>)"








subsection \<open>Assembling the sweep\<close>







subsection \<open>One tick\<close>



section \<open>The wording of the specification\<close>


text \<open>The specification's alpha of a transparency \<open>v\<close>: \<open>255 - round(v * 256)\<close>, clamped
  to the range 0 to 255.\<close>

definition spec_transparency_alpha :: "real \<Rightarrow> int" where
  "spec_transparency_alpha v = max 0 (min 255 (255 - round (v * 256)))"


section \<open>Notions used in the statements\<close>


text \<open>The hits the inner loop records for one channel, in the order of the samples.\<close>

definition channel_rays ::
    "(real \<Rightarrow> real \<Rightarrow> FHitResult) \<Rightarrow> ARayCastSemanticLidar \<Rightarrow> real \<Rightarrow> real \<Rightarrow> nat \<Rightarrow> nat
      \<Rightarrow> nat \<Rightarrow> FHitResult list" where
  "channel_rays LineTrace s cur step i P ch =
     map (\<lambda>j. ShootLaser LineTrace (LaserAngles s ! ch)
                (fmod (cur + step * real j) (HorizontalFov (Description s))
                 - HorizontalFov (Description s) / 2))
       [i..<P]"



section \<open>Concrete inputs\<close>

definition sensor_at_origin :: FTransform where
  "sensor_at_origin = \<lparr>Location = FVector 0 0 0\<rparr>"

text \<open>A material with no texture and one scalar parameter, the transparency \<open>3/1024\<close>.\<close>

definition transparency_material :: UMaterialInstance where
  "transparency_material =
     \<lparr>TextureParameterValues = [],
      ScalarParameterValues = [(''Transparency'', 3 / 1024)],
      VectorParameterValues = []\<rparr>"

text \<open>A material with a single vector parameter.\<close>

definition vector_only_material :: UMaterialInstance where
  "vector_only_material =
     \<lparr>TextureParameterValues = [],
      ScalarParameterValues = [],
      VectorParameterValues = [(''Tint'', 1, 0, 0, 1)]\<rparr>"

text \<open>A material whose first scalar parameter is not the transparency.\<close>

definition roughness_material :: UMaterialInstance where
  "roughness_material =
     \<lparr>TextureParameterValues = [],
      ScalarParameterValues = [(''Roughness'', 1 / 2)],
      VectorParameterValues = []\<rparr>"

text \<open>Three textures of one pixel each and the layered material made of them.\<close>

definition diffuse_texture :: UTexture2D where
  "diffuse_texture = \<lparr>SizeX = 1, SizeY = 1, BulkData = Some [FColor 10 20 30 40]\<rparr>"

definition normal_texture :: UTexture2D where
  "normal_texture = \<lparr>SizeX = 1, SizeY = 1, BulkData = Some [FColor 128 128 255 255]\<rparr>"

definition orme_texture :: UTexture2D where
  "orme_texture = \<lparr>SizeX = 1, SizeY = 1, BulkData = Some [FColor 50 60 70 80]\<rparr>"

definition layered_material :: UMaterialInstance where
  "layered_material =
     \<lparr>TextureParameterValues = [Some diffuse_texture, Some normal_texture, Some orme_texture],
      ScalarParameterValues = [],
      VectorParameterValues = []\<rparr>"

text \<open>A component that is not a static mesh, with the semantic tag 10, and a blocking
  hit on it, one unit in front of the sensor.\<close>

definition no_material :: "int \<Rightarrow> UMaterialInterface option" where
  "no_material face = None"

definition skeletal_component :: UPrimitiveComponent where
  "skeletal_component =
     \<lparr>CustomDepthStencilValue = 10,
      IsStaticMeshComponent = False,
      GetMaterialFromCollisionFaceIndex = no_material\<rparr>"

definition hit_on_skeletal :: FHitResult where
  "hit_on_skeletal =
     \<lparr>bBlockingHit = True,
      TraceEnd = FVector 0 0 1,
      ImpactPoint = FVector 1 0 0,
      ImpactNormal = FVector (- 1) 0 0,
      Distance = 1,
      FaceIndex = 0,
      Component = Some skeletal_component,
      FindCollisionUV = None\<rparr>"

text \<open>A static mesh with the semantic tag 1 whose faces carry \<open>roughness_material\<close>, and a
  blocking hit on it.\<close>

definition rough_faces :: "int \<Rightarrow> UMaterialInterface option" where
  "rough_faces face = Some (MaterialInstance roughness_material)"

definition wall_component :: UPrimitiveComponent where
  "wall_component =
     \<lparr>CustomDepthStencilValue = 1,
      IsStaticMeshComponent = True,
      GetMaterialFromCollisionFaceIndex = rough_faces\<rparr>"

definition hit_on_wall :: FHitResult where
  "hit_on_wall =
     \<lparr>bBlockingHit = True,
      TraceEnd = FVector 0 0 1,
      ImpactPoint = FVector 1 0 0,
      ImpactNormal = FVector (- 1) 0 0,
      Distance = 1,
      FaceIndex = 3,
      Component = Some wall_component,
      FindCollisionUV = Some (0, 0)\<rparr>"

text \<open>A scene in which every ray misses.\<close>

definition NoHitWorld :: "real \<Rightarrow> real \<Rightarrow> FHitResult" where
  "NoHitWorld VerticalAngle HorizontalAngle =
     \<lparr>bBlockingHit = False,
      TraceEnd = FVector 0 0 0,
      ImpactPoint = FVector 0 0 0,
      ImpactNormal = FVector 0 0 0,
      Distance = 0,
      FaceIndex = - 1,
      Component = None,
      FindCollisionUV = None\<rparr>"

text \<open>A sensor with two channels, before and after its configuration.\<close>

definition two_channel_description :: FLidarDescription where
  "two_channel_description =
     \<lparr>Channels = 2, Range = 1000, PointsPerSecond = 16, RotationFrequency = 1,
      UpperFovLimit = 10, LowerFovLimit = - 30, HorizontalFov = 360\<rparr>"

definition blank_sensor :: ARayCastSemanticLidar where
  "blank_sensor =
     \<lparr>Description = two_channel_description,
      LaserAngles = [],
      PointsPerChannel = [],
      RecordedHits = [],
      RayPreprocessCondition = [],
      SemanticLidarData = FSemanticLidarData_new 0,
      ActorTransform = sensor_at_origin\<rparr>"

definition two_channel_sensor :: ARayCastSemanticLidar where
  "two_channel_sensor =
     \<lparr>Description = two_channel_description,
      LaserAngles = [10, - 30],
      PointsPerChannel = [0, 0],
      RecordedHits = [],
      RayPreprocessCondition = [],
      SemanticLidarData = \<lparr>horizontal_angle = 0, Header = [0, 0], SerPoints = []\<rparr>,
      ActorTransform = sensor_at_origin\<rparr>"






section \<open>Properties of the classifier\<close>

text \<open>
  C6. For every hit whose blocking flag is false, the detection produced has
  \<open>cos_inc_angle = 2\<close>, \<open>object_idx = 0\<close>, \<open>object_tag = 0\<close> and both quads equal to
  \<open>(0, 0, 0, 0)\<close>; the classifier returns normally.
\<close>

theorem no_hit_detection:
  assumes "\<not> bBlockingHit HitInfo"
  shows "\<exists>d. ComputeRawDetection HitInfo SensorTransf Detection = Inr d
           \<and> cos_inc_angle d = 2 \<and> object_idx d = 0 \<and> object_tag d = 0
           \<and> base_color d = Vector4DuInt 0 0 0 0 \<and> ORME d = Vector4DuInt 0 0 0 0"
  using assms by (simp add: ComputeRawDetection_def)

theorem no_hit_detection_witness:
  "\<not> bBlockingHit (NoHitWorld 0 0) \<and>
   (\<exists>d. ComputeRawDetection (NoHitWorld 0 0) sensor_at_origin FSemanticDetection_default = Inr d
           \<and> cos_inc_angle d = 2 \<and> object_idx d = 0 \<and> object_tag d = 0
           \<and> base_color d = Vector4DuInt 0 0 0 0 \<and> ORME d = Vector4DuInt 0 0 0 0)"
proof -
  have h: "\<not> bBlockingHit (NoHitWorld 0 0)" by (simp add: NoHitWorld_def)
  from h no_hit_detection [OF h, of sensor_at_origin FSemanticDetection_default]
  show ?thesis by simp
qed

subsection \<open>The transparency branch\<close>

lemma float_to_uint8_in_range:
  assumes "0 \<le> v" "v < 256"
  shows "float_to_uint8 v = Inr (word_of_int \<lfloor>v\<rfloor>)"
proof -
  have "0 \<le> \<lfloor>v\<rfloor>" using assms by simp
  moreover have "\<lfloor>v\<rfloor> \<le> 255" using assms by linarith
  ultimately show ?thesis using assms by (simp add: float_to_uint8_def trunc_toward_zero_def)
qed

text \<open>
  C1, as the code has it. For a material with no texture parameter whose first scalar
  parameter is named "Transparency" with a value \<open>v\<close> in \<open>[0, 1)\<close>, the classifier returns
  normally; \<open>ORME\<close> is the zero quad (the colour \<open>textureColor\<close>, which no texture sample
  ever overwrites) and \<open>base_color\<close> is \<open>(0, 0, 0, 255 - trunc(v * 256))\<close>: the product is
  truncated, not rounded, and nothing is clamped. The other members of the detection
  (among them \<open>object_idx\<close>) are left as they were.
\<close>

theorem transparency_alpha_truncated:
  assumes "TextureParameterValues mi = []"
    and "ScalarParameterValues mi = (''Transparency'', v) # rest"
    and "0 \<le> v" and "v < 1"
  shows "ComputeRawDetectionFromMaterialInstance Detection mi =
           Inr (Detection\<lparr>ORME := Vector4DuInt 0 0 0 0,
                  base_color := Vector4DuInt 0 0 0 (word_of_int (255 - \<lfloor>v * 256\<rfloor>))\<rparr>)"
proof -
  have r: "0 \<le> v * 256" "v * 256 < 256" using assms by simp_all
  have f: "0 \<le> \<lfloor>v * 256\<rfloor>" "\<lfloor>v * 256\<rfloor> \<le> 255" using r by linarith+
  have u: "uint (word_of_int \<lfloor>v * 256\<rfloor> :: 8 word) = \<lfloor>v * 256\<rfloor>"
    using f by (simp add: uint_word_of_int take_bit_int_eq_self)
  show ?thesis
    using assms(1,2) float_to_uint8_in_range [OF r] u
    by (simp add: ComputeRawDetectionFromMaterialInstance_def)
qed

theorem transparency_alpha_truncated_witness:
  "TextureParameterValues transparency_material = []
   \<and> ScalarParameterValues transparency_material = [(''Transparency'', 3 / 1024)]
   \<and> ComputeRawDetectionFromMaterialInstance FSemanticDetection_default transparency_material =
       Inr (FSemanticDetection_default\<lparr>ORME := Vector4DuInt 0 0 0 0,
              base_color := Vector4DuInt 0 0 0 (word_of_int (255 - \<lfloor>3 / 1024 * 256 :: real\<rfloor>))\<rparr>)"
  using transparency_alpha_truncated
    [of transparency_material "3 / 1024" "[]" FSemanticDetection_default]
  by (simp add: transparency_material_def)

text \<open>At the transparency \<open>3/1024\<close> the product \<open>v * 256\<close> is \<open>0.75\<close>: the code truncates it
  to 0 and writes the alpha 255, the specification rounds it to 1 and asks for 254.\<close>

theorem transparency_alpha_counterexample:
  "ComputeRawDetectionFromMaterialInstance FSemanticDetection_default transparency_material =
     Inr (FSemanticDetection_default\<lparr>ORME := Vector4DuInt 0 0 0 0,
            base_color := Vector4DuInt 0 0 0 255\<rparr>)
   \<and> Vector4DuInt 0 0 0 255 \<noteq>
       Vector4DuInt 0 0 0 (word_of_int (spec_transparency_alpha (3 / 1024)))"
proof -
  have fl: "\<lfloor>3 / 4 :: real\<rfloor> = 0" by (simp add: floor_eq_iff)
  have a: "float_to_uint8 (3 / 4) = Inr 0"
    by (simp add: float_to_uint8_def trunc_toward_zero_def fl)
  have rd: "round (3 / 4 :: real) = 1" by (simp add: round_def floor_eq_iff)
  have s: "spec_transparency_alpha (3 / 1024) = 254"
    by (simp add: spec_transparency_alpha_def rd)
  show ?thesis
    by (simp add: ComputeRawDetectionFromMaterialInstance_def transparency_material_def a s)
qed

subsection \<open>The fallback without a static mesh\<close>

text \<open>
  C2, the code at a blocking hit on a component that is not a static mesh (so that no
  component is resolved): the detection has \<open>object_idx = 1\<close>, the tag of the component
  and a zero \<open>ORME\<close>, but its \<open>base_color\<close> is \<open>(1, 0, 0, 0)\<close>, not the zero quad.
\<close>

theorem unresolved_component_base_color:
  "ComputeRawDetection hit_on_skeletal sensor_at_origin FSemanticDetection_default =
     Inr \<lparr>point = FVector 0 0 1, cos_inc_angle = 1, object_idx = 1, object_tag = 10,
          base_color = Vector4DuInt 1 0 0 0, ORME = Vector4DuInt 0 0 0 0\<rparr>"
  by (simp add: ComputeRawDetection_def hit_on_skeletal_def skeletal_component_def
      sensor_at_origin_def FSemanticDetection_default_def GetSafeNormal_def DotProduct_def
      FVector_minus_def FVector_neg_def)

subsection \<open>The material with vector parameters only\<close>

text \<open>
  C3, the code at a material instance with no texture, no scalar and one vector
  parameter: the fatal log stops the classifier before the statements that would write
  the code 7, so no detection is returned.
\<close>

theorem vector_only_material_fatal:
  "ComputeRawDetectionFromMaterialInstance FSemanticDetection_default vector_only_material =
     Inl FatalLog"
  by (simp add: ComputeRawDetectionFromMaterialInstance_def vector_only_material_def)

subsection \<open>Layered materials\<close>

text \<open>
  C4, as the code has it. For a material instance with exactly 3, 4 or 13 texture
  parameters the classifier returns normally with \<open>base_color\<close> and \<open>ORME\<close> both equal to
  the zero quad, whatever the textures hold: no texture is sampled. The other members
  of the detection are left as they were.
\<close>

theorem layered_material_quads_zero:
  assumes "length (TextureParameterValues mi) = 3
           \<or> length (TextureParameterValues mi) = 4
           \<or> length (TextureParameterValues mi) = 13"
  shows "ComputeRawDetectionFromMaterialInstance Detection mi =
           Inr (Detection\<lparr>base_color := Vector4DuInt 0 0 0 0, ORME := Vector4DuInt 0 0 0 0\<rparr>)"
proof -
  from assms have ne: "TextureParameterValues mi \<noteq> []" by auto
  from assms ne show ?thesis
    by (auto simp add: ComputeRawDetectionFromMaterialInstance_def Let_def)
qed

theorem layered_material_quads_zero_witness:
  "length (TextureParameterValues layered_material) = 3
   \<and> ComputeRawDetectionFromMaterialInstance FSemanticDetection_default layered_material =
       Inr (FSemanticDetection_default\<lparr>base_color := Vector4DuInt 0 0 0 0,
              ORME := Vector4DuInt 0 0 0 0\<rparr>)"
  using layered_material_quads_zero [of layered_material FSemanticDetection_default]
  by (simp add: layered_material_def)

text \<open>The textures 0 and 2 of \<open>layered_material\<close> sample to two distinct colours at the UV
  coordinates \<open>(0, 0)\<close>; neither reaches the detection.\<close>

theorem layered_material_counterexample:
  "GetColorFromTexture diffuse_texture (0, 0) = Inr (FColor 10 20 30 40)
   \<and> GetColorFromTexture orme_texture (0, 0) = Inr (FColor 50 60 70 80)
   \<and> ComputeRawDetectionFromMaterialInstance FSemanticDetection_default layered_material =
       Inr (FSemanticDetection_default\<lparr>base_color := Vector4DuInt 0 0 0 0,
              ORME := Vector4DuInt 0 0 0 0\<rparr>)
   \<and> Vector4DuInt 0 0 0 0 \<noteq> Vector4DuInt 10 20 30 40
   \<and> Vector4DuInt 0 0 0 0 \<noteq> Vector4DuInt 50 60 70 80"
proof -
  have z: "float_to_uint8 (RoundHalfFromZero 0) = Inr 0"
    by (simp add: float_to_uint8_def RoundHalfFromZero_def trunc_toward_zero_def)
  show ?thesis
    by (simp add: GetColorFromTexture_def diffuse_texture_def orme_texture_def z
        ComputeRawDetectionFromMaterialInstance_def layered_material_def)
qed

subsection \<open>The semantic tag\<close>

text \<open>Neither the material stage nor the component stage writes \<open>object_tag\<close>.\<close>

lemma material_instance_keeps_tag:
  "ComputeRawDetectionFromMaterialInstance D mi = Inr d \<Longrightarrow> object_tag d = object_tag D"
  by (auto simp add: ComputeRawDetectionFromMaterialInstance_def Let_def
      split: list.splits if_splits sum.splits prod.splits)

lemma component_keeps_tag:
  "ComputeRawDetectionFromComponent h D c = Inr d \<Longrightarrow> object_tag d = object_tag D"
  by (auto simp add: ComputeRawDetectionFromComponent_def
      split: if_splits option.splits UMaterialInterface.splits
      dest: material_instance_keeps_tag)

text \<open>
  C10. For every blocking hit on a component \<open>c\<close>, the detection the classifier produces
  has \<open>object_tag\<close> equal to the custom depth stencil value of \<open>c\<close>, whichever branch of the
  ladder produced it: the tag is written before the ladder and no branch writes it again.
\<close>

theorem blocking_hit_object_tag:
  assumes "bBlockingHit HitInfo"
    and "Component HitInfo = Some c"
    and "ComputeRawDetection HitInfo SensorTransf Detection = Inr d"
  shows "object_tag d = CustomDepthStencilValue c"
  using assms
  by (auto simp add: ComputeRawDetection_def Let_def split: if_splits
      dest!: component_keeps_tag)

theorem blocking_hit_object_tag_witness:
  "bBlockingHit hit_on_wall \<and> Component hit_on_wall = Some wall_component
   \<and> ComputeRawDetection hit_on_wall sensor_at_origin FSemanticDetection_default =
       Inr \<lparr>point = FVector 0 0 1, cos_inc_angle = 1, object_idx = 8, object_tag = 1,
            base_color = Vector4DuInt 0 0 0 0, ORME = Vector4DuInt 0 0 0 0\<rparr>
   \<and> object_tag \<lparr>point = FVector 0 0 1, cos_inc_angle = 1, object_idx = 8, object_tag = 1,
            base_color = Vector4DuInt 0 0 0 0, ORME = Vector4DuInt 0 0 0 0\<rparr>
       = CustomDepthStencilValue wall_component"
proof -
  have b: "bBlockingHit hit_on_wall" by (simp add: hit_on_wall_def)
  have c: "Component hit_on_wall = Some wall_component" by (simp add: hit_on_wall_def)
  have r: "ComputeRawDetection hit_on_wall sensor_at_origin FSemanticDetection_default =
       Inr \<lparr>point = FVector 0 0 1, cos_inc_angle = 1, object_idx = 8, object_tag = 1,
            base_color = Vector4DuInt 0 0 0 0, ORME = Vector4DuInt 0 0 0 0\<rparr>"
    by (simp add: ComputeRawDetection_def hit_on_wall_def wall_component_def
      sensor_at_origin_def FSemanticDetection_default_def GetSafeNormal_def DotProduct_def
      FVector_minus_def FVector_neg_def ComputeRawDetectionFromComponent_def rough_faces_def
      ComputeRawDetectionFromMaterialInstance_def roughness_material_def)
  from b c r blocking_hit_object_tag [OF b c r] show ?thesis by simp
qed

section \<open>Properties of the sensor\<close>

subsection \<open>Vertical angles\<close>

lemma CreateLasers_loop_map:
  "CreateLasers_loop i N U D acc = acc @ map (\<lambda>k. U - real k * D) [i..<N]"
proof (induction i N U D acc rule: CreateLasers_loop.induct)
  case (1 i N U D acc)
  show ?case
  proof (cases "i < N")
    case True
    with 1 show ?thesis
      by (subst CreateLasers_loop.simps) (simp add: upt_conv_Cons)
  next
    case False
    then show ?thesis by (subst CreateLasers_loop.simps) simp
  qed
qed




lemma upt_two: "[0..<2] = [0, Suc 0]"
  by (simp add: numeral_2_eq_2)



text \<open>After \<open>Set\<close> the sensor has as many vertical angles and per-channel counters as
  channels, and its horizontal angle is 0.\<close>

lemma Set_Description_configured:
  assumes "Set_Description D s0 = Inr s"
  shows "Description s = D \<and> Channels (Description s) = length (LaserAngles s)
         \<and> length (PointsPerChannel s) = Channels (Description s)
         \<and> GetHorizontalAngle (SemanticLidarData s) = 0"
  using assms
  by (auto simp add: Set_Description_def CreateLasers_def CreateLasers_loop_map Let_def
      resize_vec_def FSemanticLidarData_new_def GetHorizontalAngle_def
      split: if_splits sum.splits)

text \<open>\<open>Set\<close> on the blank sensor gives the configured sensor of the examples.\<close>

lemma configure_two_channel:
  "Set_Description two_channel_description blank_sensor = Inr two_channel_sensor"
  by (simp add: Set_Description_def CreateLasers_def CreateLasers_loop_map upt_two
      two_channel_description_def blank_sensor_def two_channel_sensor_def
      FSemanticLidarData_new_def resize_vec_def numeral_2_eq_2)

subsection \<open>The ray caster\<close>





lemma ShootLaser_blocking:
  "bBlockingHit (ShootLaser LT v h) = bBlockingHit (LT v h)"
  by (simp add: ShootLaser_def Let_def)




lemma channel_rays_misses:
  assumes "\<forall>v h. \<not> bBlockingHit (LT v h)"
  shows "\<forall>x\<in>set (channel_rays LT s cur step i P ch). \<not> bBlockingHit x"
  using assms by (auto simp add: channel_rays_def ShootLaser_blocking)

subsection \<open>The assembler\<close>







subsection \<open>One tick\<close>






subsection \<open>Arithmetic of the wrap\<close>






subsection \<open>The examples\<close>








subsection \<open>Horizontal angles of the samples\<close>




subsection \<open>The horizontal angle across ticks\<close>










subsection \<open>Detection counts\<close>



end
